theory Spec2Isabelle
  imports Main "HOL-Library.Sublist" "HOL-Library.AList"
begin

section \<open>The credential helper \<^verbatim>\<open>secrets.py\<close>\<close>

text \<open>
  The module resolves a (username, password) pair from the process environment,
  else from the operating system keyring, else (on request) from an interactive
  prompt whose answers are stored in the keyring first.

  Python strings are modelled as \<^typ>\<open>string\<close>; a character stands for a code point
  below 256. \<^verbatim>\<open>Optional[str]\<close> is \<^typ>\<open>string option\<close>.
\<close>

subsection \<open>Exceptions and the process state\<close>

text \<open>
  The exceptions the module can end with. \<open>MissingSecretError\<close> is the module's own
  class and carries its message. \<open>PasswordDeleteError\<close> stands for every instance of
  \<^verbatim>\<open>keyring.errors.PasswordDeleteError\<close>, which the keyring library raises
  whenever a password could not be deleted: because nothing is stored under the key,
  but also because the backend cannot delete or was refused access. \<open>EOFError\<close> is what
  \<^verbatim>\<open>input\<close> and \<^verbatim>\<open>getpass.getpass\<close> raise when no line can be read.
  \<open>OtherError\<close> stands for any other exception, identified by its text.
\<close>

datatype exn =
    MissingSecretError string
  | PasswordDeleteError string
  | EOFError
  | OtherError string

text \<open>What the terminal showed: a prompt with echoed input, or one with masked input.\<close>

datatype prompt = Visible string | Masked string

text \<open>
  The state a call runs in: the environment variables, the state of the keyring
  backend (of a type the backend chooses), the lines the operator is still going to
  type, and the prompts shown so far.
\<close>

record 'st world =
  environ :: "string \<rightharpoonup> string"
  keyring_state :: 'st
  tty_in :: "string list"
  tty_out :: "prompt list"

text \<open>A Python computation: from a state to a result or an exception, and the new state.\<close>

type_synonym ('a, 'st) py = "'st world \<Rightarrow> (exn + 'a) \<times> 'st world"

definition py_return :: "'a \<Rightarrow> ('a, 'st) py" where
  "py_return x w = (Inr x, w)"

definition py_raise :: "exn \<Rightarrow> ('a, 'st) py" where
  "py_raise e w = (Inl e, w)"

definition py_bind :: "('a, 'st) py \<Rightarrow> ('a \<Rightarrow> ('b, 'st) py) \<Rightarrow> ('b, 'st) py" where
  "py_bind c f w = (case c w of (Inl e, w') \<Rightarrow> (Inl e, w') | (Inr x, w') \<Rightarrow> f x w')"

text \<open>Truth value of an \<^verbatim>\<open>Optional[str]\<close>: neither \<^verbatim>\<open>None\<close> nor the empty string.\<close>

fun truthy :: "string option \<Rightarrow> bool" where
  "truthy None = False"
| "truthy (Some s) = (s \<noteq> [])"

subsection \<open>The collaborators: environment, terminal, keyring\<close>

definition getenv :: "string \<Rightarrow> (string option, 'st) py" where
  "getenv name w = (Inr (environ w name), w)"

text \<open>
  \<^verbatim>\<open>str.strip()\<close> removes leading and trailing whitespace; these are the code
  points below 256 for which \<^verbatim>\<open>str.isspace\<close> holds.
\<close>

definition isspace :: "char \<Rightarrow> bool" where
  "isspace c = (of_char c \<in> {9, 10, 11, 12, 13, 28, 29, 30, 31, 32, 133, 160 :: nat})"

definition strip :: "string \<Rightarrow> string" where
  "strip s = rev (dropWhile isspace (rev (dropWhile isspace s)))"

text \<open>
  \<^verbatim>\<open>input(prompt)\<close> shows the prompt and reads one line, echoed;
  \<^verbatim>\<open>getpass.getpass(prompt)\<close> does the same without echo. Both raise
  \<^verbatim>\<open>EOFError\<close> when there is no line left.
\<close>

definition input :: "string \<Rightarrow> (string, 'st) py" where
  "input p w =
     (case tty_in w of
        [] \<Rightarrow> (Inl EOFError, w\<lparr>tty_out := tty_out w @ [Visible p]\<rparr>)
      | l # ls \<Rightarrow> (Inr l, w\<lparr>tty_in := ls, tty_out := tty_out w @ [Visible p]\<rparr>))"

definition getpass :: "string \<Rightarrow> (string, 'st) py" where
  "getpass p w =
     (case tty_in w of
        [] \<Rightarrow> (Inl EOFError, w\<lparr>tty_out := tty_out w @ [Masked p]\<rparr>)
      | l # ls \<Rightarrow> (Inr l, w\<lparr>tty_in := ls, tty_out := tty_out w @ [Masked p]\<rparr>))"

text \<open>
  The keyring library is not part of the repository: the module only calls its three
  functions, which delegate to whatever backend is installed. A backend is therefore a
  parameter of the model: three operations on the backend's own state, each of which
  may return or raise, and may change the state either way.
\<close>

record 'st backend =
  get_password :: "string \<Rightarrow> string \<Rightarrow> 'st \<Rightarrow> (exn + string option) \<times> 'st"
  set_password :: "string \<Rightarrow> string \<Rightarrow> string \<Rightarrow> 'st \<Rightarrow> (exn + unit) \<times> 'st"
  delete_password :: "string \<Rightarrow> string \<Rightarrow> 'st \<Rightarrow> (exn + unit) \<times> 'st"

definition keyring_get_password ::
  "'st backend \<Rightarrow> string \<Rightarrow> string \<Rightarrow> (string option, 'st) py" where
  "keyring_get_password kr service key w =
     (case get_password kr service key (keyring_state w) of
        (r, s) \<Rightarrow> (r, w\<lparr>keyring_state := s\<rparr>))"

definition keyring_set_password ::
  "'st backend \<Rightarrow> string \<Rightarrow> string \<Rightarrow> string \<Rightarrow> (unit, 'st) py" where
  "keyring_set_password kr service key v w =
     (case set_password kr service key v (keyring_state w) of
        (r, s) \<Rightarrow> (r, w\<lparr>keyring_state := s\<rparr>))"

definition keyring_delete_password ::
  "'st backend \<Rightarrow> string \<Rightarrow> string \<Rightarrow> (unit, 'st) py" where
  "keyring_delete_password kr service key w =
     (case delete_password kr service key (keyring_state w) of
        (r, s) \<Rightarrow> (r, w\<lparr>keyring_state := s\<rparr>))"

subsection \<open>Module globals\<close>

text \<open>
  \<^verbatim>\<open>SERVICE_NAME\<close> and \<^verbatim>\<open>DEFAULT_ACCOUNT\<close> are read from the environment once,
  when the module is imported; \<^verbatim>\<open>ENV_USER\<close> and \<^verbatim>\<open>ENV_PASS\<close> are literals.
\<close>

record secrets_module =
  SERVICE_NAME :: string
  DEFAULT_ACCOUNT :: string

definition getenv_default :: "(string \<rightharpoonup> string) \<Rightarrow> string \<Rightarrow> string \<Rightarrow> string" where
  "getenv_default env name dflt = (case env name of None \<Rightarrow> dflt | Some v \<Rightarrow> v)"

definition import_secrets :: "(string \<rightharpoonup> string) \<Rightarrow> secrets_module" where
  "import_secrets env =
     \<lparr>SERVICE_NAME = getenv_default env ''KEYRING_SERVICE'' ''pi-weblogger'',
      DEFAULT_ACCOUNT = getenv_default env ''KEYRING_ACCOUNT'' ''prod''\<rparr>"

definition ENV_USER :: string where
  "ENV_USER = ''PI_USER''"

definition ENV_PASS :: string where
  "ENV_PASS = ''PI_PASS''"

subsection \<open>The functions of the module\<close>

definition env_credentials :: "((string \<times> string) option, 'st) py" where
  "env_credentials =
     py_bind (getenv ENV_USER) (\<lambda>u.
     py_bind (getenv ENV_PASS) (\<lambda>p.
       if truthy u \<and> truthy p then py_return (Some (the u, the p))
       else py_return None))"

definition key_names :: "string \<Rightarrow> string \<times> string" where
  "key_names account = (account @ '':username'', account @ '':password'')"

text \<open>
  \<^verbatim>\<open>username or input(...).strip()\<close>: the prompt is evaluated only when the
  argument is \<^verbatim>\<open>None\<close> or empty.
\<close>

definition set_basic_auth ::
  "'st backend \<Rightarrow> secrets_module \<Rightarrow> string \<Rightarrow> string option \<Rightarrow> string option \<Rightarrow> (unit, 'st) py"
  where
  "set_basic_auth kr m account username password =
     (case key_names account of (user_key, pass_key) \<Rightarrow>
        py_bind (if truthy username then py_return (the username)
                 else py_bind (input ''PI Username: '') (\<lambda>l. py_return (strip l))) (\<lambda>username.
        py_bind (if truthy password then py_return (the password)
                 else getpass ''PI Password: '') (\<lambda>password.
        py_bind (keyring_set_password kr (SERVICE_NAME m) user_key username) (\<lambda>_.
        keyring_set_password kr (SERVICE_NAME m) pass_key password))))"

definition missing_message :: "secrets_module \<Rightarrow> string \<Rightarrow> string" where
  "missing_message m account =
     ''Missing credentials.\<newline>'' @
     ''- Set env vars '' @ ENV_USER @ ''/'' @ ENV_PASS @ '', OR\<newline>'' @
     ''- Run: python -c \"import secrets; secrets.set_basic_auth('' @ [CHR 0x27] @ account
        @ [CHR 0x27] @ '')\"\<newline>'' @
     ''(service='' @ [CHR 0x27] @ SERVICE_NAME m @ [CHR 0x27] @ '', account='' @ [CHR 0x27]
        @ account @ [CHR 0x27] @ '')''"

definition get_basic_auth ::
  "'st backend \<Rightarrow> secrets_module \<Rightarrow> string \<Rightarrow> bool \<Rightarrow> (string \<times> string, 'st) py" where
  "get_basic_auth kr m account interactive_bootstrap =
     py_bind env_credentials (\<lambda>env.
       case env of
         Some c \<Rightarrow> py_return c
       | None \<Rightarrow>
          (case key_names account of (user_key, pass_key) \<Rightarrow>
             py_bind (keyring_get_password kr (SERVICE_NAME m) user_key) (\<lambda>username.
             py_bind (keyring_get_password kr (SERVICE_NAME m) pass_key) (\<lambda>password.
               if truthy username \<and> truthy password
               then py_return (the username, the password)
               else if interactive_bootstrap then
                 py_bind (set_basic_auth kr m account None None) (\<lambda>_.
                 py_bind (keyring_get_password kr (SERVICE_NAME m) user_key) (\<lambda>username.
                 py_bind (keyring_get_password kr (SERVICE_NAME m) pass_key) (\<lambda>password.
                   if truthy username \<and> truthy password
                   then py_return (the username, the password)
                   else py_raise (MissingSecretError (missing_message m account)))))
               else py_raise (MissingSecretError (missing_message m account))))))"

definition requests_auth ::
  "'st backend \<Rightarrow> secrets_module \<Rightarrow> string \<Rightarrow> (string \<times> string, 'st) py" where
  "requests_auth kr m account = get_basic_auth kr m account False"

text \<open>
  \<^verbatim>\<open>try: ... except keyring.errors.PasswordDeleteError: pass\<close> turns that
  exception, and no other, into a normal return.
\<close>

definition except_PasswordDeleteError :: "(unit, 'st) py \<Rightarrow> (unit, 'st) py" where
  "except_PasswordDeleteError c w =
     (case c w of
        (Inl (PasswordDeleteError _), w') \<Rightarrow> (Inr (), w')
      | (r, w') \<Rightarrow> (r, w'))"

definition delete_basic_auth :: "'st backend \<Rightarrow> secrets_module \<Rightarrow> string \<Rightarrow> (unit, 'st) py" where
  "delete_basic_auth kr m account =
     (case key_names account of (user_key, pass_key) \<Rightarrow>
        py_bind (except_PasswordDeleteError
                   (keyring_delete_password kr (SERVICE_NAME m) user_key)) (\<lambda>_.
        except_PasswordDeleteError (keyring_delete_password kr (SERVICE_NAME m) pass_key)))"

subsection \<open>Backends used to run the module\<close>

text \<open>
  An in-memory backend: the state is an association list from (service, key) to the
  secret. Deleting a key that is not there raises \<^verbatim>\<open>PasswordDeleteError\<close>, as
  the backends of the keyring library do.
\<close>

definition dict_keyring :: "((string \<times> string) \<times> string) list backend" where
  "dict_keyring =
     \<lparr>get_password = (\<lambda>service key s. (Inr (map_of s (service, key)), s)),
      set_password = (\<lambda>service key v s. (Inr (), AList.update (service, key) v s)),
      delete_password = (\<lambda>service key s.
         case map_of s (service, key) of
           None \<Rightarrow> (Inl (PasswordDeleteError ''Password not found''), s)
         | Some _ \<Rightarrow> (Inr (), AList.delete (service, key) s))\<rparr>"

text \<open>A backend whose keyring is locked: every operation raises.\<close>

definition locked_keyring :: "unit backend" where
  "locked_keyring =
     \<lparr>get_password = (\<lambda>service key s. (Inl (OtherError ''KeyringLocked''), s)),
      set_password = (\<lambda>service key v s. (Inl (OtherError ''KeyringLocked''), s)),
      delete_password = (\<lambda>service key s. (Inl (OtherError ''KeyringLocked''), s))\<rparr>"

text \<open>A backend whose writes are silently lost: every write succeeds, nothing is kept.\<close>

definition forgetful_keyring :: "unit backend" where
  "forgetful_keyring =
     \<lparr>get_password = (\<lambda>service key s. (Inr None, s)),
      set_password = (\<lambda>service key v s. (Inr (), s)),
      delete_password = (\<lambda>service key s. (Inl (PasswordDeleteError ''Password not found''), s))\<rparr>"

text \<open>
  A backend that stores and reads like the in-memory one but keeps the delete operation
  of the library's backend base class, which raises \<^verbatim>\<open>PasswordDeleteError\<close>
  whatever is stored.
\<close>

definition undeletable_keyring :: "((string \<times> string) \<times> string) list backend" where
  "undeletable_keyring =
     \<lparr>get_password = (\<lambda>service key s. (Inr (map_of s (service, key)), s)),
      set_password = (\<lambda>service key v s. (Inr (), AList.update (service, key) v s)),
      delete_password = (\<lambda>service key s. (Inl (PasswordDeleteError ''reason''), s))\<rparr>"

subsection \<open>Vocabulary of the properties\<close>

text \<open>
  An answer of a keyring call that the handler in \<open>delete_basic_auth\<close> does not catch:
  an exception of any class other than \<^verbatim>\<open>PasswordDeleteError\<close>.
\<close>

fun uncaught :: "exn + 'a \<Rightarrow> bool" where
  "uncaught (Inl (PasswordDeleteError _)) = False"
| "uncaught (Inl _) = True"
| "uncaught (Inr _) = False"

text \<open>
  Modelled from the spec: the contract of the Secure Store Adapter (the keyring
  library and its backends are an external collaborator, outside the repository). A
  backend honours the contract, with \<open>content\<close> reading off what its state holds, when
  \<^item> \<open>get\<close> answers with the string held under (service, key), or absent, and changes
    nothing;
  \<^item> \<open>set\<close> and \<open>delete\<close> leave every other (service, key) as it was, whether they
    succeed or fail;
  \<^item> after a successful \<open>set\<close> the key holds the value written, and after a successful
    \<open>delete\<close> it holds nothing.
\<close>

definition honours_contract ::
  "'st backend \<Rightarrow> ('st \<Rightarrow> string \<times> string \<rightharpoonup> string) \<Rightarrow> bool" where
  "honours_contract kr content \<longleftrightarrow>
     (\<forall>service key s. get_password kr service key s = (Inr (content s (service, key)), s)) \<and>
     (\<forall>service key v s r s'. set_password kr service key v s = (r, s') \<longrightarrow>
        (\<forall>k. k \<noteq> (service, key) \<longrightarrow> content s' k = content s k) \<and>
        (r = Inr () \<longrightarrow> content s' (service, key) = Some v)) \<and>
     (\<forall>service key s r s'. delete_password kr service key s = (r, s') \<longrightarrow>
        (\<forall>k. k \<noteq> (service, key) \<longrightarrow> content s' k = content s k) \<and>
        (r = Inr () \<longrightarrow> content s' (service, key) = None))"

text \<open>
  A computation is blind to the environment when running it under other environment
  variables gives the same result and the same changes to the rest of the state.
\<close>

definition env_blind :: "('a, 'st) py \<Rightarrow> bool" where
  "env_blind c \<longleftrightarrow>
     (\<forall>w e. c (w\<lparr>environ := e\<rparr>) = (case c w of (r, w') \<Rightarrow> (r, w'\<lparr>environ := e\<rparr>)))"

section \<open>Properties\<close>

subsection \<open>Key names\<close>

lemma key_names_user_not_pass: "fst (key_names a) \<noteq> snd (key_names b)"
  by (simp add: key_names_def)

lemma key_names_fst_inj: "fst (key_names a) = fst (key_names b) \<longleftrightarrow> a = b"
  by (simp add: key_names_def)

lemma key_names_snd_inj: "snd (key_names a) = snd (key_names b) \<longleftrightarrow> a = b"
  by (simp add: key_names_def)

text \<open>
  C5. The keys of two different accounts share no string, and the username key and the
  password key of one account differ. (\<open>key_names\<close> is a function of the account alone.)
\<close>

theorem key_names_no_collision:
  "(A \<noteq> B \<longrightarrow>
      {fst (key_names A), snd (key_names A)} \<inter> {fst (key_names B), snd (key_names B)} = {})
   \<and> fst (key_names A) \<noteq> snd (key_names A)"
  using key_names_user_not_pass [of A B] key_names_user_not_pass [of B A]
    key_names_user_not_pass [of A A]
  by (auto simp: key_names_fst_inj key_names_snd_inj)

theorem key_names_no_collision_witness:
  "''prod'' \<noteq> ''test'' \<and>
   {fst (key_names ''prod''), snd (key_names ''prod'')} \<inter>
     {fst (key_names ''test''), snd (key_names ''test'')} = {}
   \<and> key_names ''prod'' = (''prod:username'', ''prod:password'')"
  using key_names_no_collision [of "''prod''" "''test''"]
  by (simp add: key_names_def)

subsection \<open>The environment override\<close>

lemma env_credentials_both:
  "environ w ENV_USER = Some u \<Longrightarrow> u \<noteq> [] \<Longrightarrow> environ w ENV_PASS = Some p \<Longrightarrow> p \<noteq> []
   \<Longrightarrow> env_credentials w = (Inr (Some (u, p)), w)"
  by (simp add: env_credentials_def py_bind_def getenv_def py_return_def)

lemma env_credentials_none:
  "\<not> (truthy (environ w ENV_USER) \<and> truthy (environ w ENV_PASS))
   \<Longrightarrow> env_credentials w = (Inr None, w)"
  by (auto simp add: env_credentials_def py_bind_def getenv_def py_return_def)

text \<open>
  C1. When PI_USER and PI_PASS are both set and non-empty, \<open>get_basic_auth\<close> returns
  exactly that pair and the state it was called in, whatever the account and the
  bootstrap flag. This holds for every backend and every backend state: a backend
  that changed its state on a read would show the read in the returned state, so the
  keyring is neither read nor written.
\<close>

theorem env_override_wins:
  "environ w ''PI_USER'' = Some u \<Longrightarrow> u \<noteq> [] \<Longrightarrow> environ w ''PI_PASS'' = Some p \<Longrightarrow> p \<noteq> []
   \<Longrightarrow> get_basic_auth kr m account interactive_bootstrap w = (Inr (u, p), w)"
  by (simp add: get_basic_auth_def py_bind_def py_return_def env_credentials_both
      ENV_USER_def ENV_PASS_def)

theorem env_override_wins_witness:
  "get_basic_auth dict_keyring (import_secrets Map.empty) ''prod'' True
     \<lparr>environ = [''PI_USER'' \<mapsto> ''ci'', ''PI_PASS'' \<mapsto> ''token''],
      keyring_state = [((''pi-weblogger'', ''prod:username''), ''alice''),
                       ((''pi-weblogger'', ''prod:password''), ''s3cr3t'')],
      tty_in = [], tty_out = []\<rparr>
   = (Inr (''ci'', ''token''),
     \<lparr>environ = [''PI_USER'' \<mapsto> ''ci'', ''PI_PASS'' \<mapsto> ''token''],
      keyring_state = [((''pi-weblogger'', ''prod:username''), ''alice''),
                       ((''pi-weblogger'', ''prod:password''), ''s3cr3t'')],
      tty_in = [], tty_out = []\<rparr>)"
  by (rule env_override_wins [where u = "''ci''" and p = "''token''"]) simp_all

subsection \<open>Falling through to the keyring\<close>

lemma get_basic_auth_store:
  assumes "\<not> (truthy (environ w ENV_USER) \<and> truthy (environ w ENV_PASS))"
    and "get_password kr (SERVICE_NAME m) (fst (key_names a)) (keyring_state w) = (Inr x, s1)"
    and "get_password kr (SERVICE_NAME m) (snd (key_names a)) s1 = (Inr y, s2)"
  shows "get_basic_auth kr m a False w =
     (if truthy x \<and> truthy y then Inr (the x, the y)
      else Inl (MissingSecretError (missing_message m a)), w\<lparr>keyring_state := s2\<rparr>)"
  using assms(2,3)
  by (simp add: get_basic_auth_def py_bind_def py_return_def py_raise_def key_names_def
      env_credentials_none [OF assms(1)] keyring_get_password_def)

lemma missing_message_user: "sublist ''PI_USER'' (missing_message m a)"
proof -
  have "\<exists>ps ss. missing_message m a = ps @ ''PI_USER'' @ ss"
    unfolding missing_message_def ENV_USER_def by (metis append.assoc)
  then show ?thesis by (simp add: sublist_def)
qed

lemma missing_message_pass: "sublist ''PI_PASS'' (missing_message m a)"
proof -
  have "\<exists>ps ss. missing_message m a = ps @ ''PI_PASS'' @ ss"
    unfolding missing_message_def ENV_PASS_def by (metis append.assoc)
  then show ?thesis by (simp add: sublist_def)
qed

lemma missing_message_service: "sublist (SERVICE_NAME m) (missing_message m a)"
proof -
  have "\<exists>ps ss. missing_message m a = ps @ SERVICE_NAME m @ ss"
    unfolding missing_message_def by (metis append.assoc)
  then show ?thesis by (simp add: sublist_def)
qed

lemma missing_message_account: "sublist a (missing_message m a)"
proof -
  have "\<exists>ps ss. missing_message m a = ps @ a @ ss"
    unfolding missing_message_def by (metis append.assoc)
  then show ?thesis by (simp add: sublist_def)
qed

lemma missing_message_invocation:
  "sublist (''python -c \"import secrets; secrets.set_basic_auth('' @ [CHR 0x27] @ a @ [CHR 0x27] @ '')\"'')
     (missing_message m a)"
proof -
  have "missing_message m a =
    (''Missing credentials.\<newline>'' @ ''- Set env vars '' @ ENV_USER @ ''/'' @ ENV_PASS @ '', OR\<newline>'' @ ''- Run: '') @
    (''python -c \"import secrets; secrets.set_basic_auth('' @ [CHR 0x27] @ a @ [CHR 0x27] @ '')\"'') @
    (''\<newline>'' @ ''(service='' @ [CHR 0x27] @ SERVICE_NAME m @ [CHR 0x27] @ '', account='' @ [CHR 0x27]
        @ a @ [CHR 0x27] @ '')'')"
    unfolding missing_message_def by simp
  then show ?thesis by (metis sublist_appendI)
qed

text \<open>
  C3. When the environment gives no override, the two keyring lookups for the account
  return but do not give two non-empty values, and bootstrap is off, \<open>get_basic_auth\<close>
  raises \<open>MissingSecretError\<close>. Its message contains both variable names, the literal
  bootstrap invocation for the account, the service name and the account name.
\<close>

theorem missing_credentials_raised:
  assumes "\<not> (truthy (environ w ''PI_USER'') \<and> truthy (environ w ''PI_PASS''))"
    and "get_password kr (SERVICE_NAME m) (fst (key_names account)) (keyring_state w) = (Inr x, s1)"
    and "get_password kr (SERVICE_NAME m) (snd (key_names account)) s1 = (Inr y, s2)"
    and "\<not> (truthy x \<and> truthy y)"
  shows "fst (get_basic_auth kr m account False w) = Inl (MissingSecretError (missing_message m account))
    \<and> sublist ''PI_USER'' (missing_message m account)
    \<and> sublist ''PI_PASS'' (missing_message m account)
    \<and> sublist (''python -c \"import secrets; secrets.set_basic_auth('' @ [CHR 0x27] @ account
          @ [CHR 0x27] @ '')\"'') (missing_message m account)
    \<and> sublist (SERVICE_NAME m) (missing_message m account)
    \<and> sublist account (missing_message m account)"
proof -
  have env: "\<not> (truthy (environ w ENV_USER) \<and> truthy (environ w ENV_PASS))"
    using assms(1) by (simp add: ENV_USER_def ENV_PASS_def)
  have "fst (get_basic_auth kr m account False w) = Inl (MissingSecretError (missing_message m account))"
    using get_basic_auth_store [OF env assms(2) assms(3)] assms(4) by simp
  then show ?thesis
    using missing_message_user missing_message_pass missing_message_invocation
      missing_message_service missing_message_account by blast
qed

theorem missing_credentials_raised_witness:
  "fst (get_basic_auth dict_keyring (import_secrets Map.empty) ''prod'' False
          \<lparr>environ = [''PI_USER'' \<mapsto> ''ci''], keyring_state = [((''pi-weblogger'', ''prod:username''), ''alice'')],
           tty_in = [], tty_out = []\<rparr>)
   = Inl (MissingSecretError
      ''Missing credentials.\<newline>- Set env vars PI_USER/PI_PASS, OR\<newline>- Run: python -c \"import secrets; secrets.set_basic_auth('prod')\"\<newline>(service='pi-weblogger', account='prod')'')"
  using missing_credentials_raised [of
      "\<lparr>environ = [''PI_USER'' \<mapsto> ''ci''], keyring_state = [((''pi-weblogger'', ''prod:username''), ''alice'')],
           tty_in = [], tty_out = []\<rparr>"
      dict_keyring "import_secrets Map.empty" "''prod''" "Some ''alice''"
      "[((''pi-weblogger'', ''prod:username''), ''alice'')]" None
      "[((''pi-weblogger'', ''prod:username''), ''alice'')]"]
  by (simp add: dict_keyring_def import_secrets_def getenv_default_def key_names_def
      missing_message_def ENV_USER_def ENV_PASS_def)

subsection \<open>Deleting\<close>

lemma except_PasswordDeleteError_eq:
  "except_PasswordDeleteError c w =
     (case c w of (r, w') \<Rightarrow> (if uncaught r then r else Inr (), w'))"
proof (cases "c w")
  case (Pair r w')
  then show ?thesis
    by (cases r rule: uncaught.cases) (simp_all add: except_PasswordDeleteError_def)
qed

lemma delete_basic_auth_eq:
  assumes "delete_password kr (SERVICE_NAME m) (fst (key_names account)) (keyring_state w) = (r1, s1)"
    and "delete_password kr (SERVICE_NAME m) (snd (key_names account)) s1 = (r2, s2)"
  shows "delete_basic_auth kr m account w =
        (if uncaught r1 then (r1, w\<lparr>keyring_state := s1\<rparr>)
         else if uncaught r2 then (r2, w\<lparr>keyring_state := s2\<rparr>)
         else (Inr (), w\<lparr>keyring_state := s2\<rparr>))"
proof -
  have c1: "keyring_delete_password kr (SERVICE_NAME m) (account @ '':username'') w
      = (r1, w\<lparr>keyring_state := s1\<rparr>)"
    using assms(1) by (simp add: keyring_delete_password_def key_names_def)
  have c2: "keyring_delete_password kr (SERVICE_NAME m) (account @ '':password'')
      (w\<lparr>keyring_state := s1\<rparr>) = (r2, w\<lparr>keyring_state := s2\<rparr>)"
    using assms(2) by (simp add: keyring_delete_password_def key_names_def)
  show ?thesis
    unfolding delete_basic_auth_def
    by (cases r1 rule: uncaught.cases)
      (simp_all add: py_bind_def except_PasswordDeleteError_eq c1 c2 key_names_def)
qed

text \<open>
  C4, as amended. Let \<open>r1\<close> be the keyring's answer to deleting the username key and
  \<open>r2\<close> its answer to deleting the password key afterwards. \<open>delete_basic_auth\<close>
  raises exactly when one of the answers is an exception of a class other than
  \<^verbatim>\<open>PasswordDeleteError\<close>, and then raises that very exception. A
  \<^verbatim>\<open>PasswordDeleteError\<close> on the first key is swallowed, whatever its reason, and
  the second key is still attempted; one on the second key is swallowed too, and the
  call returns normally.
\<close>

theorem delete_basic_auth_outcome:
  assumes "delete_password kr (SERVICE_NAME m) (fst (key_names account)) (keyring_state w) = (r1, s1)"
    and "delete_password kr (SERVICE_NAME m) (snd (key_names account)) s1 = (r2, s2)"
  shows "(isl (fst (delete_basic_auth kr m account w)) \<longleftrightarrow> uncaught r1 \<or> uncaught r2)
    \<and> delete_basic_auth kr m account w =
        (if uncaught r1 then (r1, w\<lparr>keyring_state := s1\<rparr>)
         else if uncaught r2 then (r2, w\<lparr>keyring_state := s2\<rparr>)
         else (Inr (), w\<lparr>keyring_state := s2\<rparr>))"
proof -
  have "uncaught r \<Longrightarrow> isl r" for r :: "exn + unit"
    by (cases r) auto
  with delete_basic_auth_eq [OF assms] show ?thesis by auto
qed

theorem delete_basic_auth_outcome_witness:
  "delete_basic_auth dict_keyring (import_secrets Map.empty) ''prod''
     \<lparr>environ = Map.empty, keyring_state = [((''pi-weblogger'', ''prod:password''), ''s3cr3t'')],
      tty_in = [], tty_out = []\<rparr>
   = (Inr (), \<lparr>environ = Map.empty, keyring_state = [], tty_in = [], tty_out = []\<rparr>)
   \<and> fst (delete_basic_auth locked_keyring (import_secrets Map.empty) ''prod''
     \<lparr>environ = Map.empty, keyring_state = (), tty_in = [], tty_out = []\<rparr>)
     = Inl (OtherError ''KeyringLocked'')"
  using delete_basic_auth_outcome [of dict_keyring "import_secrets Map.empty" "''prod''"
      "\<lparr>environ = Map.empty, keyring_state = [((''pi-weblogger'', ''prod:password''), ''s3cr3t'')],
      tty_in = [], tty_out = []\<rparr>"
      "Inl (PasswordDeleteError ''Password not found'')"
      "[((''pi-weblogger'', ''prod:password''), ''s3cr3t'')]" "Inr ()" "[]"]
    delete_basic_auth_outcome [of locked_keyring "import_secrets Map.empty" "''prod''"
      "\<lparr>environ = Map.empty, keyring_state = (), tty_in = [], tty_out = []\<rparr>"
      "Inl (OtherError ''KeyringLocked'')" "()" "Inl (OtherError ''KeyringLocked'')" "()"]
  by (simp add: dict_keyring_def locked_keyring_def import_secrets_def getenv_default_def key_names_def
      AList.delete_eq)

text \<open>
  C4, as stated, fails: a store failure other than "key not found" is swallowed when the
  library reports it as a \<^verbatim>\<open>PasswordDeleteError\<close>. On a backend that cannot
  delete, with both keys of the account present, \<open>delete_basic_auth\<close> returns normally,
  nothing has been deleted, and the credentials still resolve.
\<close>

theorem delete_failure_is_swallowed:
  "delete_basic_auth undeletable_keyring (import_secrets Map.empty) ''prod''
     \<lparr>environ = Map.empty,
      keyring_state = [((''pi-weblogger'', ''prod:username''), ''alice''),
                       ((''pi-weblogger'', ''prod:password''), ''s3cr3t'')],
      tty_in = [], tty_out = []\<rparr>
   = (Inr (),
      \<lparr>environ = Map.empty,
       keyring_state = [((''pi-weblogger'', ''prod:username''), ''alice''),
                        ((''pi-weblogger'', ''prod:password''), ''s3cr3t'')],
       tty_in = [], tty_out = []\<rparr>)
   \<and> delete_password undeletable_keyring ''pi-weblogger'' ''prod:username''
       [((''pi-weblogger'', ''prod:username''), ''alice''),
        ((''pi-weblogger'', ''prod:password''), ''s3cr3t'')]
     = (Inl (PasswordDeleteError ''reason''),
        [((''pi-weblogger'', ''prod:username''), ''alice''),
         ((''pi-weblogger'', ''prod:password''), ''s3cr3t'')])
   \<and> get_basic_auth undeletable_keyring (import_secrets Map.empty) ''prod'' False
     \<lparr>environ = Map.empty,
      keyring_state = [((''pi-weblogger'', ''prod:username''), ''alice''),
                       ((''pi-weblogger'', ''prod:password''), ''s3cr3t'')],
      tty_in = [], tty_out = []\<rparr>
   = (Inr (''alice'', ''s3cr3t''),
      \<lparr>environ = Map.empty,
       keyring_state = [((''pi-weblogger'', ''prod:username''), ''alice''),
                        ((''pi-weblogger'', ''prod:password''), ''s3cr3t'')],
       tty_in = [], tty_out = []\<rparr>)"
  by (simp add: delete_basic_auth_def get_basic_auth_def env_credentials_def getenv_def
      key_names_def py_bind_def py_return_def except_PasswordDeleteError_def
      keyring_delete_password_def keyring_get_password_def undeletable_keyring_def
      import_secrets_def getenv_default_def)

subsection \<open>No prompt without bootstrap\<close>

lemma env_credentials_cases:
  "(\<exists>u p. env_credentials w = (Inr (Some (u, p)), w) \<and> environ w ''PI_USER'' = Some u
        \<and> environ w ''PI_PASS'' = Some p)
   \<or> env_credentials w = (Inr None, w)"
  by (cases "environ w ''PI_USER''"; cases "environ w ''PI_PASS''")
    (simp_all add: env_credentials_def py_bind_def getenv_def py_return_def ENV_USER_def ENV_PASS_def)

text \<open>
  C8, as amended. With bootstrap off, \<open>get_basic_auth\<close> never prompts: the lines still to
  be typed and the prompts shown are as before, for every backend and every state. The
  call ends in one of five ways: it returns the pair of the environment, it returns the
  pair the two keyring lookups gave, it raises \<open>MissingSecretError\<close>, or it raises the
  exception that the first or the second lookup raised.
\<close>

theorem no_prompt_without_bootstrap:
  "\<exists>r w'. get_basic_auth kr m account False w = (r, w')
     \<and> tty_in w' = tty_in w \<and> tty_out w' = tty_out w
     \<and> ((\<exists>u p. r = Inr (u, p) \<and> environ w ''PI_USER'' = Some u \<and> environ w ''PI_PASS'' = Some p)
        \<or> (\<exists>u p s1 s2. r = Inr (u, p)
              \<and> get_password kr (SERVICE_NAME m) (fst (key_names account)) (keyring_state w)
                  = (Inr (Some u), s1)
              \<and> get_password kr (SERVICE_NAME m) (snd (key_names account)) s1 = (Inr (Some p), s2))
        \<or> r = Inl (MissingSecretError (missing_message m account))
        \<or> (\<exists>e s1. r = Inl e
              \<and> get_password kr (SERVICE_NAME m) (fst (key_names account)) (keyring_state w)
                  = (Inl e, s1))
        \<or> (\<exists>e x s1 s2. r = Inl e
              \<and> get_password kr (SERVICE_NAME m) (fst (key_names account)) (keyring_state w)
                  = (Inr x, s1)
              \<and> get_password kr (SERVICE_NAME m) (snd (key_names account)) s1 = (Inl e, s2)))"
proof -
  consider (env) u p where "env_credentials w = (Inr (Some (u, p)), w)"
      "environ w ''PI_USER'' = Some u" "environ w ''PI_PASS'' = Some p"
    | (none) "env_credentials w = (Inr None, w)"
    using env_credentials_cases [of w] by blast
  then show ?thesis
  proof cases
    case env
    then show ?thesis
      by (simp add: get_basic_auth_def py_bind_def py_return_def)
  next
    case none
    obtain r1 s1 where g1:
      "get_password kr (SERVICE_NAME m) (fst (key_names account)) (keyring_state w) = (r1, s1)"
      by (cases "get_password kr (SERVICE_NAME m) (fst (key_names account)) (keyring_state w)")
    obtain r2 s2 where g2:
      "get_password kr (SERVICE_NAME m) (snd (key_names account)) s1 = (r2, s2)"
      by (cases "get_password kr (SERVICE_NAME m) (snd (key_names account)) s1")
    show ?thesis
    proof (cases r1)
      case (Inl e)
      with none g1 show ?thesis
        by (simp add: get_basic_auth_def py_bind_def keyring_get_password_def key_names_def)
    next
      case r1: (Inr x)
      show ?thesis
      proof (cases r2)
        case (Inl e)
        with none g1 g2 r1 show ?thesis
          by (simp add: get_basic_auth_def py_bind_def keyring_get_password_def key_names_def)
      next
        case (Inr y)
        with none g1 g2 r1 show ?thesis
          by (cases x; cases y)
            (simp_all add: get_basic_auth_def py_bind_def py_return_def py_raise_def
              keyring_get_password_def key_names_def)
      qed
    qed
  qed
qed

text \<open>
  C8, as stated, fails: on a locked keyring the call neither returns a pair nor raises
  \<open>MissingSecretError\<close>; the backend's exception reaches the caller.
\<close>

theorem store_failure_is_propagated:
  "fst (get_basic_auth locked_keyring (import_secrets Map.empty) ''prod'' False
          \<lparr>environ = Map.empty, keyring_state = (), tty_in = [], tty_out = []\<rparr>)
   = Inl (OtherError ''KeyringLocked'')"
  by (simp add: get_basic_auth_def env_credentials_def py_bind_def getenv_def py_return_def
      keyring_get_password_def locked_keyring_def key_names_def)

subsection \<open>Empty arguments to \<open>set_basic_auth\<close>\<close>

text \<open>
  C9. An empty string given for the username or for the password is treated exactly as
  an omitted argument: the field is asked for at the prompt. When both are empty and
  the operator types two lines, the stripped first line and the second line are what
  is written to the keyring, after the visible and the masked prompt.
\<close>

theorem empty_argument_prompts:
  "set_basic_auth kr m account (Some []) password = set_basic_auth kr m account None password
   \<and> set_basic_auth kr m account username (Some []) = set_basic_auth kr m account username None
   \<and> (tty_in w = l1 # l2 # rest \<longrightarrow>
        set_basic_auth kr m account (Some []) (Some []) w =
          py_bind (keyring_set_password kr (SERVICE_NAME m) (fst (key_names account)) (strip l1))
            (\<lambda>_. keyring_set_password kr (SERVICE_NAME m) (snd (key_names account)) l2)
            (w\<lparr>tty_in := rest,
               tty_out := tty_out w @ [Visible ''PI Username: '', Masked ''PI Password: '']\<rparr>))"
  by (simp add: set_basic_auth_def key_names_def py_bind_def py_return_def input_def getpass_def)

theorem empty_argument_prompts_witness:
  "set_basic_auth dict_keyring (import_secrets Map.empty) ''prod'' (Some []) (Some [])
     \<lparr>environ = Map.empty, keyring_state = [], tty_in = ['' alice '', ''s3cr3t''], tty_out = []\<rparr>
   = (Inr (),
      \<lparr>environ = Map.empty,
       keyring_state = [((''pi-weblogger'', ''prod:username''), ''alice''),
                        ((''pi-weblogger'', ''prod:password''), ''s3cr3t'')],
       tty_in = [], tty_out = [Visible ''PI Username: '', Masked ''PI Password: '']\<rparr>)"
proof -
  let ?w = "\<lparr>environ = Map.empty, keyring_state = ([] :: ((string \<times> string) \<times> string) list),
    tty_in = ['' alice '', ''s3cr3t''], tty_out = []\<rparr>"
  have "tty_in ?w = '' alice '' # ''s3cr3t'' # []"
    by simp
  then have "set_basic_auth dict_keyring (import_secrets Map.empty) ''prod'' (Some []) (Some []) ?w =
      py_bind (keyring_set_password dict_keyring (SERVICE_NAME (import_secrets Map.empty))
                 (fst (key_names ''prod'')) (strip '' alice ''))
        (\<lambda>_. keyring_set_password dict_keyring (SERVICE_NAME (import_secrets Map.empty))
                 (snd (key_names ''prod'')) ''s3cr3t'')
        (?w\<lparr>tty_in := [],
            tty_out := tty_out ?w @ [Visible ''PI Username: '', Masked ''PI Password: '']\<rparr>)"
    using empty_argument_prompts [of dict_keyring "import_secrets Map.empty" "''prod''" None None ?w]
    by blast
  then show ?thesis
    by (simp add: dict_keyring_def import_secrets_def getenv_default_def key_names_def py_bind_def
        keyring_set_password_def strip_def isspace_def)
qed

subsection \<open>A partial override\<close>

lemma env_blind_return: "env_blind (py_return x)"
  by (simp add: env_blind_def py_return_def)

lemma env_blind_raise: "env_blind (py_raise e)"
  by (simp add: env_blind_def py_raise_def)

lemma env_blind_bind:
  assumes "env_blind c" and "\<And>x. env_blind (f x)"
  shows "env_blind (py_bind c f)"
  unfolding env_blind_def
proof (intro allI)
  fix w e
  obtain r w' where c: "c w = (r, w')"
    by (cases "c w")
  with assms(1) have ce: "c (w\<lparr>environ := e\<rparr>) = (r, w'\<lparr>environ := e\<rparr>)"
    by (simp add: env_blind_def)
  show "py_bind c f (w\<lparr>environ := e\<rparr>) =
      (case py_bind c f w of (r, w') \<Rightarrow> (r, w'\<lparr>environ := e\<rparr>))"
  proof (cases r)
    case (Inl x)
    with c ce show ?thesis by (simp add: py_bind_def)
  next
    case (Inr x)
    with c ce assms(2) [of x] show ?thesis by (simp add: py_bind_def env_blind_def)
  qed
qed

lemma env_blind_if: "env_blind c \<Longrightarrow> env_blind d \<Longrightarrow> env_blind (if b then c else d)"
  by simp

lemma env_blind_input: "env_blind (input p)"
  by (simp add: env_blind_def input_def split: list.splits)

lemma env_blind_getpass: "env_blind (getpass p)"
  by (simp add: env_blind_def getpass_def split: list.splits)

lemma env_blind_get: "env_blind (keyring_get_password kr service key)"
  by (simp add: env_blind_def keyring_get_password_def split: prod.splits)

lemma env_blind_set: "env_blind (keyring_set_password kr service key v)"
  by (simp add: env_blind_def keyring_set_password_def split: prod.splits)

lemmas env_blind_intros = env_blind_bind env_blind_if env_blind_return env_blind_raise
  env_blind_input env_blind_getpass env_blind_get env_blind_set

lemma env_blind_set_basic_auth: "env_blind (set_basic_auth kr m account username password)"
  unfolding set_basic_auth_def key_names_def prod.case
  by (intro env_blind_intros)

lemma get_basic_auth_store_path:
  "\<exists>R. env_blind R \<and>
     get_basic_auth kr m account b =
       py_bind env_credentials (\<lambda>env. case env of Some c \<Rightarrow> py_return c | None \<Rightarrow> R)"
  unfolding get_basic_auth_def key_names_def prod.case
  by (rule exI, rule conjI [rotated], rule refl) (intro env_blind_intros env_blind_set_basic_auth)

lemma get_basic_auth_store_complete:
  assumes "\<not> (truthy (environ w ENV_USER) \<and> truthy (environ w ENV_PASS))"
    and "get_password kr (SERVICE_NAME m) (fst (key_names a)) (keyring_state w) = (Inr (Some u), s1)"
    and "get_password kr (SERVICE_NAME m) (snd (key_names a)) s1 = (Inr (Some p), s2)"
    and "u \<noteq> []" "p \<noteq> []"
  shows "get_basic_auth kr m a b w = (Inr (u, p), w\<lparr>keyring_state := s2\<rparr>)"
  using assms(2-)
  by (simp add: get_basic_auth_def py_bind_def py_return_def key_names_def
      env_credentials_none [OF assms(1)] keyring_get_password_def)

text \<open>
  C6. When exactly one of PI_USER and PI_PASS is set and non-empty, \<open>get_basic_auth\<close>
  behaves as it does with both variables unset: same result, same keyring state, same
  terminal (the environment itself is left as it was). In particular, if the two
  keyring lookups for the account give non-empty values, these are returned.
\<close>

theorem partial_override_ignored:
  assumes "truthy (environ w ''PI_USER'') \<noteq> truthy (environ w ''PI_PASS'')"
  shows "get_basic_auth kr m account b w =
      (case get_basic_auth kr m account b
              (w\<lparr>environ := (environ w)(''PI_USER'' := None, ''PI_PASS'' := None)\<rparr>) of
         (r, w') \<Rightarrow> (r, w'\<lparr>environ := environ w\<rparr>))
    \<and> (\<forall>u p s1 s2.
          get_password kr (SERVICE_NAME m) (fst (key_names account)) (keyring_state w)
            = (Inr (Some u), s1) \<longrightarrow>
          get_password kr (SERVICE_NAME m) (snd (key_names account)) s1 = (Inr (Some p), s2) \<longrightarrow>
          u \<noteq> [] \<longrightarrow> p \<noteq> [] \<longrightarrow>
          get_basic_auth kr m account b w = (Inr (u, p), w\<lparr>keyring_state := s2\<rparr>))"
proof -
  let ?w0 = "w\<lparr>environ := (environ w)(''PI_USER'' := None, ''PI_PASS'' := None)\<rparr>"
  have env: "\<not> (truthy (environ w ENV_USER) \<and> truthy (environ w ENV_PASS))"
    using assms by (auto simp: ENV_USER_def ENV_PASS_def)
  have env0: "\<not> (truthy (environ ?w0 ENV_USER) \<and> truthy (environ ?w0 ENV_PASS))"
    by (simp add: ENV_USER_def ENV_PASS_def)
  obtain R where R: "env_blind R"
    and G: "get_basic_auth kr m account b =
       py_bind env_credentials (\<lambda>env. case env of Some c \<Rightarrow> py_return c | None \<Rightarrow> R)"
    using get_basic_auth_store_path by blast
  have "get_basic_auth kr m account b w = R w"
    by (simp add: G py_bind_def env_credentials_none [OF env])
  moreover have "get_basic_auth kr m account b ?w0 = R ?w0"
    by (simp add: G py_bind_def env_credentials_none [OF env0])
  moreover have "R (?w0\<lparr>environ := environ w\<rparr>) =
      (case R ?w0 of (r, w') \<Rightarrow> (r, w'\<lparr>environ := environ w\<rparr>))"
    using R unfolding env_blind_def by blast
  ultimately have first: "get_basic_auth kr m account b w =
      (case get_basic_auth kr m account b ?w0 of (r, w') \<Rightarrow> (r, w'\<lparr>environ := environ w\<rparr>))"
    by simp
  show ?thesis
    using first get_basic_auth_store_complete [OF env] by blast
qed

theorem partial_override_ignored_witness:
  "get_basic_auth dict_keyring (import_secrets Map.empty) ''prod'' False
     \<lparr>environ = [''PI_USER'' \<mapsto> ''ci''],
      keyring_state = [((''pi-weblogger'', ''prod:username''), ''alice''),
                       ((''pi-weblogger'', ''prod:password''), ''s3cr3t'')],
      tty_in = [], tty_out = []\<rparr>
   = (Inr (''alice'', ''s3cr3t''),
     \<lparr>environ = [''PI_USER'' \<mapsto> ''ci''],
      keyring_state = [((''pi-weblogger'', ''prod:username''), ''alice''),
                       ((''pi-weblogger'', ''prod:password''), ''s3cr3t'')],
      tty_in = [], tty_out = []\<rparr>)"
proof -
  let ?s = "[((''pi-weblogger'', ''prod:username''), ''alice''),
             ((''pi-weblogger'', ''prod:password''), ''s3cr3t'')]"
  let ?w = "\<lparr>environ = [''PI_USER'' \<mapsto> ''ci''], keyring_state = ?s, tty_in = [], tty_out = []\<rparr>"
  let ?m = "import_secrets Map.empty"
  have one: "truthy (environ ?w ''PI_USER'') \<noteq> truthy (environ ?w ''PI_PASS'')"
    by simp
  have g1: "get_password dict_keyring (SERVICE_NAME ?m) (fst (key_names ''prod'')) (keyring_state ?w)
      = (Inr (Some ''alice''), ?s)"
    by (simp add: dict_keyring_def import_secrets_def getenv_default_def key_names_def)
  have g2: "get_password dict_keyring (SERVICE_NAME ?m) (snd (key_names ''prod'')) ?s
      = (Inr (Some ''s3cr3t''), ?s)"
    by (simp add: dict_keyring_def import_secrets_def getenv_default_def key_names_def)
  have "get_basic_auth dict_keyring ?m ''prod'' False ?w
      = (Inr (''alice'', ''s3cr3t''), ?w\<lparr>keyring_state := ?s\<rparr>)"
    using partial_override_ignored [OF one, of dict_keyring ?m "''prod''" False] g1 g2 by blast
  then show ?thesis by simp
qed

subsection \<open>Backends that honour the contract\<close>

lemma contract_get:
  "honours_contract kr content \<Longrightarrow> get_password kr service key s = (Inr (content s (service, key)), s)"
  by (simp add: honours_contract_def)

lemma contract_set_frame:
  "honours_contract kr content \<Longrightarrow> set_password kr service key v s = (r, s') \<Longrightarrow>
   k \<noteq> (service, key) \<Longrightarrow> content s' k = content s k"
  unfolding honours_contract_def by blast

lemma contract_set_value:
  "honours_contract kr content \<Longrightarrow> set_password kr service key v s = (Inr (), s') \<Longrightarrow>
   content s' (service, key) = Some v"
  unfolding honours_contract_def by blast

lemma contract_delete_frame:
  "honours_contract kr content \<Longrightarrow> delete_password kr service key s = (r, s') \<Longrightarrow>
   k \<noteq> (service, key) \<Longrightarrow> content s' k = content s k"
  unfolding honours_contract_def by blast

lemma get_basic_auth_contract:
  assumes "honours_contract kr content"
    and "\<not> (truthy (environ w ENV_USER) \<and> truthy (environ w ENV_PASS))"
  shows "get_basic_auth kr m a False w =
     (if truthy (content (keyring_state w) (SERVICE_NAME m, fst (key_names a)))
         \<and> truthy (content (keyring_state w) (SERVICE_NAME m, snd (key_names a)))
      then Inr (the (content (keyring_state w) (SERVICE_NAME m, fst (key_names a))),
                the (content (keyring_state w) (SERVICE_NAME m, snd (key_names a))))
      else Inl (MissingSecretError (missing_message m a)), w)"
  using get_basic_auth_store [OF assms(2) contract_get [OF assms(1)] contract_get [OF assms(1)],
      of m a]
  by simp

lemma dict_keyring_honours_contract: "honours_contract dict_keyring map_of"
  by (auto simp: honours_contract_def dict_keyring_def update_conv' delete_conv'
      split: option.splits)

text \<open>The two writes that end \<open>set_basic_auth\<close>, and what precedes them.\<close>

lemma two_writes:
  assumes "set_password kr service uk u (keyring_state w) = (r1, s1)"
    and "set_password kr service pk p s1 = (r2, s2)"
  shows "py_bind (keyring_set_password kr service uk u)
           (\<lambda>_. keyring_set_password kr service pk p) w =
         (if isl r1 then (r1, w\<lparr>keyring_state := s1\<rparr>) else (r2, w\<lparr>keyring_state := s2\<rparr>))"
  using assms by (cases r1) (simp_all add: py_bind_def keyring_set_password_def)

lemma set_basic_auth_supplied:
  "u \<noteq> [] \<Longrightarrow> p \<noteq> [] \<Longrightarrow>
   set_basic_auth kr m a (Some u) (Some p) =
     py_bind (keyring_set_password kr (SERVICE_NAME m) (fst (key_names a)) u)
       (\<lambda>_. keyring_set_password kr (SERVICE_NAME m) (snd (key_names a)) p)"
  by (rule ext) (simp add: set_basic_auth_def key_names_def py_bind_def py_return_def)

lemma set_basic_auth_cases:
  "(\<exists>w1. set_basic_auth kr m a un pw w = (Inl EOFError, w1)
        \<and> keyring_state w1 = keyring_state w \<and> environ w1 = environ w)
   \<or> (\<exists>u p w1. keyring_state w1 = keyring_state w \<and> environ w1 = environ w
        \<and> set_basic_auth kr m a un pw w =
            py_bind (keyring_set_password kr (SERVICE_NAME m) (fst (key_names a)) u)
              (\<lambda>_. keyring_set_password kr (SERVICE_NAME m) (snd (key_names a)) p) w1)"
proof (cases "truthy un")
  case un: True
  show ?thesis
  proof (cases "truthy pw")
    case True
    with un have "set_basic_auth kr m a un pw w =
            py_bind (keyring_set_password kr (SERVICE_NAME m) (fst (key_names a)) (the un))
              (\<lambda>_. keyring_set_password kr (SERVICE_NAME m) (snd (key_names a)) (the pw)) w"
      by (simp add: set_basic_auth_def key_names_def py_bind_def py_return_def)
    then show ?thesis by blast
  next
    case False
    show ?thesis
    proof (cases "tty_in w")
      case Nil
      with un False have "set_basic_auth kr m a un pw w =
          (Inl EOFError, w\<lparr>tty_out := tty_out w @ [Masked ''PI Password: '']\<rparr>)"
        by (simp add: set_basic_auth_def key_names_def py_bind_def py_return_def getpass_def)
      then show ?thesis by simp
    next
      case (Cons l ls)
      with un False have "set_basic_auth kr m a un pw w =
            py_bind (keyring_set_password kr (SERVICE_NAME m) (fst (key_names a)) (the un))
              (\<lambda>_. keyring_set_password kr (SERVICE_NAME m) (snd (key_names a)) l)
              (w\<lparr>tty_in := ls, tty_out := tty_out w @ [Masked ''PI Password: '']\<rparr>)"
        by (simp add: set_basic_auth_def key_names_def py_bind_def py_return_def getpass_def)
      moreover have "keyring_state (w\<lparr>tty_in := ls, tty_out := tty_out w @ [Masked ''PI Password: '']\<rparr>)
          = keyring_state w" "environ (w\<lparr>tty_in := ls, tty_out := tty_out w @ [Masked ''PI Password: '']\<rparr>)
          = environ w" by simp_all
      ultimately show ?thesis by blast
    qed
  qed
next
  case un: False
  show ?thesis
  proof (cases "tty_in w")
    case Nil
    with un have "set_basic_auth kr m a un pw w =
        (Inl EOFError, w\<lparr>tty_out := tty_out w @ [Visible ''PI Username: '']\<rparr>)"
      by (simp add: set_basic_auth_def key_names_def py_bind_def py_return_def input_def)
    then show ?thesis by simp
  next
    case l1: (Cons l ls)
    let ?w1 = "w\<lparr>tty_in := ls, tty_out := tty_out w @ [Visible ''PI Username: '']\<rparr>"
    show ?thesis
    proof (cases "truthy pw")
      case True
      with un l1 have "set_basic_auth kr m a un pw w =
            py_bind (keyring_set_password kr (SERVICE_NAME m) (fst (key_names a)) (strip l))
              (\<lambda>_. keyring_set_password kr (SERVICE_NAME m) (snd (key_names a)) (the pw)) ?w1"
        by (simp add: set_basic_auth_def key_names_def py_bind_def py_return_def input_def)
      moreover have "keyring_state ?w1 = keyring_state w" "environ ?w1 = environ w" by simp_all
      ultimately show ?thesis by blast
    next
      case False
      show ?thesis
      proof (cases ls)
        case Nil
        with un l1 False have "set_basic_auth kr m a un pw w =
          (Inl EOFError, ?w1\<lparr>tty_out := tty_out ?w1 @ [Masked ''PI Password: '']\<rparr>)"
          by (simp add: set_basic_auth_def key_names_def py_bind_def py_return_def input_def getpass_def)
        then show ?thesis by simp
      next
        case (Cons l' ls')
        let ?w2 = "?w1\<lparr>tty_in := ls', tty_out := tty_out ?w1 @ [Masked ''PI Password: '']\<rparr>"
        from un l1 False Cons have "set_basic_auth kr m a un pw w =
            py_bind (keyring_set_password kr (SERVICE_NAME m) (fst (key_names a)) (strip l))
              (\<lambda>_. keyring_set_password kr (SERVICE_NAME m) (snd (key_names a)) l') ?w2"
          by (simp add: set_basic_auth_def key_names_def py_bind_def py_return_def input_def getpass_def)
        moreover have "keyring_state ?w2 = keyring_state w" "environ ?w2 = environ w" by simp_all
        ultimately show ?thesis by blast
      qed
    qed
  qed
qed

lemma two_writes_frame:
  assumes c: "honours_contract kr content"
    and run: "py_bind (keyring_set_password kr service uk u)
           (\<lambda>_. keyring_set_password kr service pk p) w = (r, w')"
    and k: "k \<noteq> (service, uk)" "k \<noteq> (service, pk)"
  shows "content (keyring_state w') k = content (keyring_state w) k \<and> environ w' = environ w"
proof -
  obtain r1 s1 where s1: "set_password kr service uk u (keyring_state w) = (r1, s1)"
    by (cases "set_password kr service uk u (keyring_state w)")
  obtain r2 s2 where s2: "set_password kr service pk p s1 = (r2, s2)"
    by (cases "set_password kr service pk p s1")
  have f1: "content s1 k = content (keyring_state w) k"
    using contract_set_frame [OF c s1 k(1)] .
  have f2: "content s2 k = content s1 k"
    using contract_set_frame [OF c s2 k(2)] .
  from run two_writes [OF s1 s2] f1 f2 show ?thesis
    by (auto split: if_splits)
qed

lemma two_writes_value:
  assumes c: "honours_contract kr content"
    and run: "py_bind (keyring_set_password kr service uk u)
           (\<lambda>_. keyring_set_password kr service pk p) w = (Inr (), w')"
    and ne: "uk \<noteq> pk"
  shows "content (keyring_state w') (service, uk) = Some u
     \<and> content (keyring_state w') (service, pk) = Some p
     \<and> w' = w\<lparr>keyring_state := keyring_state w'\<rparr>"
proof -
  obtain r1 s1 where s1: "set_password kr service uk u (keyring_state w) = (r1, s1)"
    by (cases "set_password kr service uk u (keyring_state w)")
  obtain r2 s2 where s2: "set_password kr service pk p s1 = (r2, s2)"
    by (cases "set_password kr service pk p s1")
  from run two_writes [OF s1 s2] have r1: "r1 = Inr ()" and r2: "r2 = Inr ()"
    and w': "w' = w\<lparr>keyring_state := s2\<rparr>"
    by (cases r1; auto split: if_splits)+
  have "content s1 (service, uk) = Some u"
    using contract_set_value [OF c s1 [unfolded r1]] .
  moreover have "content s2 (service, uk) = content s1 (service, uk)"
    using contract_set_frame [OF c s2] ne by simp
  moreover have "content s2 (service, pk) = Some p"
    using contract_set_value [OF c s2 [unfolded r2]] .
  ultimately show ?thesis using w' by simp
qed

lemma set_basic_auth_frame:
  assumes c: "honours_contract kr content"
    and run: "set_basic_auth kr m a un pw w = (r, w')"
    and k: "k \<noteq> (SERVICE_NAME m, fst (key_names a))" "k \<noteq> (SERVICE_NAME m, snd (key_names a))"
  shows "content (keyring_state w') k = content (keyring_state w) k \<and> environ w' = environ w"
  using set_basic_auth_cases [of kr m a un pw w]
proof (elim disjE exE conjE)
  fix w1
  assume "set_basic_auth kr m a un pw w = (Inl EOFError, w1)"
    "keyring_state w1 = keyring_state w" "environ w1 = environ w"
  with run show ?thesis by simp
next
  fix u p w1
  assume w1: "keyring_state w1 = keyring_state w" "environ w1 = environ w"
    and "set_basic_auth kr m a un pw w =
            py_bind (keyring_set_password kr (SERVICE_NAME m) (fst (key_names a)) u)
              (\<lambda>_. keyring_set_password kr (SERVICE_NAME m) (snd (key_names a)) p) w1"
  with run have "py_bind (keyring_set_password kr (SERVICE_NAME m) (fst (key_names a)) u)
              (\<lambda>_. keyring_set_password kr (SERVICE_NAME m) (snd (key_names a)) p) w1 = (r, w')"
    by simp
  from two_writes_frame [OF c this k] w1 show ?thesis by simp
qed

lemma delete_basic_auth_frame:
  assumes c: "honours_contract kr content"
    and run: "delete_basic_auth kr m a w = (r, w')"
    and k: "k \<noteq> (SERVICE_NAME m, fst (key_names a))" "k \<noteq> (SERVICE_NAME m, snd (key_names a))"
  shows "content (keyring_state w') k = content (keyring_state w) k \<and> environ w' = environ w"
proof -
  obtain r1 s1 where d1:
    "delete_password kr (SERVICE_NAME m) (fst (key_names a)) (keyring_state w) = (r1, s1)"
    by (cases "delete_password kr (SERVICE_NAME m) (fst (key_names a)) (keyring_state w)")
  obtain r2 s2 where d2: "delete_password kr (SERVICE_NAME m) (snd (key_names a)) s1 = (r2, s2)"
    by (cases "delete_password kr (SERVICE_NAME m) (snd (key_names a)) s1")
  have f1: "content s1 k = content (keyring_state w) k"
    using contract_delete_frame [OF c d1 k(1)] .
  have f2: "content s2 k = content s1 k"
    using contract_delete_frame [OF c d2 k(2)] .
  from run delete_basic_auth_eq [OF d1 d2] f1 f2 show ?thesis
    by (auto split: if_splits)
qed

lemma other_account_keys:
  assumes "A \<noteq> B"
  shows "(service, fst (key_names B)) \<noteq> (service, fst (key_names A))"
    "(service, fst (key_names B)) \<noteq> (service, snd (key_names A))"
    "(service, snd (key_names B)) \<noteq> (service, fst (key_names A))"
    "(service, snd (key_names B)) \<noteq> (service, snd (key_names A))"
  using assms key_names_user_not_pass [of B A] key_names_user_not_pass [of A B]
  by (simp_all add: key_names_fst_inj key_names_snd_inj)

subsection \<open>Round trip\<close>

text \<open>
  C2. On a backend that honours the contract, with PI_USER and PI_PASS not both set:
  when \<open>set_basic_auth\<close> is given a non-empty username and password for an account and
  returns, a following \<open>get_basic_auth\<close> without bootstrap returns exactly these two
  strings, whatever the keyring held for the account before.
\<close>

theorem store_then_resolve:
  assumes "honours_contract kr content"
    and "u \<noteq> []" and "p \<noteq> []"
    and "\<not> (truthy (environ w ''PI_USER'') \<and> truthy (environ w ''PI_PASS''))"
    and "set_basic_auth kr m A (Some u) (Some p) w = (Inr (), w')"
  shows "get_basic_auth kr m A False w' = (Inr (u, p), w')"
proof -
  have run: "py_bind (keyring_set_password kr (SERVICE_NAME m) (fst (key_names A)) u)
       (\<lambda>_. keyring_set_password kr (SERVICE_NAME m) (snd (key_names A)) p) w = (Inr (), w')"
    using assms(5) set_basic_auth_supplied [OF assms(2,3), of kr m A] by simp
  from two_writes_value [OF assms(1) run key_names_user_not_pass]
  have stored: "content (keyring_state w') (SERVICE_NAME m, fst (key_names A)) = Some u"
    "content (keyring_state w') (SERVICE_NAME m, snd (key_names A)) = Some p"
    and w': "w' = w\<lparr>keyring_state := keyring_state w'\<rparr>"
    by blast+
  have "environ w' = environ w"
    by (subst w') simp
  with assms(4) have env: "\<not> (truthy (environ w' ENV_USER) \<and> truthy (environ w' ENV_PASS))"
    by (simp add: ENV_USER_def ENV_PASS_def)
  show ?thesis
    using get_basic_auth_contract [OF assms(1) env, of m A] stored assms(2,3) by simp
qed

theorem store_then_resolve_witness:
  "set_basic_auth dict_keyring (import_secrets Map.empty) ''prod'' (Some ''bob'') (Some ''hunter2'')
     \<lparr>environ = [''PI_PASS'' \<mapsto> ''token''],
      keyring_state = [((''pi-weblogger'', ''prod:username''), ''alice''),
                       ((''pi-weblogger'', ''prod:password''), ''s3cr3t'')],
      tty_in = [], tty_out = []\<rparr>
   = (Inr (),
      \<lparr>environ = [''PI_PASS'' \<mapsto> ''token''],
       keyring_state = [((''pi-weblogger'', ''prod:username''), ''bob''),
                        ((''pi-weblogger'', ''prod:password''), ''hunter2'')],
       tty_in = [], tty_out = []\<rparr>)
   \<and> get_basic_auth dict_keyring (import_secrets Map.empty) ''prod'' False
      \<lparr>environ = [''PI_PASS'' \<mapsto> ''token''],
       keyring_state = [((''pi-weblogger'', ''prod:username''), ''bob''),
                        ((''pi-weblogger'', ''prod:password''), ''hunter2'')],
       tty_in = [], tty_out = []\<rparr>
   = (Inr (''bob'', ''hunter2''),
      \<lparr>environ = [''PI_PASS'' \<mapsto> ''token''],
       keyring_state = [((''pi-weblogger'', ''prod:username''), ''bob''),
                        ((''pi-weblogger'', ''prod:password''), ''hunter2'')],
       tty_in = [], tty_out = []\<rparr>)"
proof -
  let ?m = "import_secrets Map.empty"
  let ?w = "\<lparr>environ = [''PI_PASS'' \<mapsto> ''token''],
      keyring_state = [((''pi-weblogger'', ''prod:username''), ''alice''),
                       ((''pi-weblogger'', ''prod:password''), ''s3cr3t'')],
      tty_in = [], tty_out = []\<rparr>"
  let ?w' = "\<lparr>environ = [''PI_PASS'' \<mapsto> ''token''],
       keyring_state = [((''pi-weblogger'', ''prod:username''), ''bob''),
                        ((''pi-weblogger'', ''prod:password''), ''hunter2'')],
       tty_in = [], tty_out = []\<rparr>"
  have env: "\<not> (truthy (environ ?w ''PI_USER'') \<and> truthy (environ ?w ''PI_PASS''))"
    by simp
  have run: "set_basic_auth dict_keyring ?m ''prod'' (Some ''bob'') (Some ''hunter2'') ?w = (Inr (), ?w')"
    by (simp add: set_basic_auth_def key_names_def py_bind_def py_return_def
        keyring_set_password_def dict_keyring_def import_secrets_def getenv_default_def)
  have "get_basic_auth dict_keyring ?m ''prod'' False ?w' = (Inr (''bob'', ''hunter2''), ?w')"
    by (rule store_then_resolve [OF dict_keyring_honours_contract _ _ env run]) simp_all
  with run show ?thesis by blast
qed

subsection \<open>Other accounts\<close>

text \<open>
  C10. On a backend that honours the contract, storing or deleting the credentials of
  account \<open>A\<close> leaves both entries of any other account \<open>B\<close> as they were, whether the
  operation returns or raises; so, without an environment override, \<open>get_basic_auth\<close>
  for \<open>B\<close> gives the same result after the operation as before.
\<close>

theorem other_account_untouched:
  assumes "honours_contract kr content" and "A \<noteq> B"
    and "set_basic_auth kr m A username password w = (r, w')
         \<or> delete_basic_auth kr m A w = (r, w')"
  shows "content (keyring_state w') (SERVICE_NAME m, fst (key_names B))
           = content (keyring_state w) (SERVICE_NAME m, fst (key_names B))
    \<and> content (keyring_state w') (SERVICE_NAME m, snd (key_names B))
           = content (keyring_state w) (SERVICE_NAME m, snd (key_names B))
    \<and> (\<not> (truthy (environ w ''PI_USER'') \<and> truthy (environ w ''PI_PASS'')) \<longrightarrow>
         fst (get_basic_auth kr m B False w') = fst (get_basic_auth kr m B False w))"
proof -
  have frame: "content (keyring_state w') k = content (keyring_state w) k \<and> environ w' = environ w"
    if "k \<noteq> (SERVICE_NAME m, fst (key_names A))" "k \<noteq> (SERVICE_NAME m, snd (key_names A))" for k
    using assms(3) set_basic_auth_frame [OF assms(1) _ that]
      delete_basic_auth_frame [OF assms(1) _ that] by blast
  have u: "content (keyring_state w') (SERVICE_NAME m, fst (key_names B))
           = content (keyring_state w) (SERVICE_NAME m, fst (key_names B))"
    and env: "environ w' = environ w"
    using frame [OF other_account_keys(1,2) [OF assms(2)]] by simp_all
  have p: "content (keyring_state w') (SERVICE_NAME m, snd (key_names B))
           = content (keyring_state w) (SERVICE_NAME m, snd (key_names B))"
    using frame [OF other_account_keys(3,4) [OF assms(2)]] by simp
  have "fst (get_basic_auth kr m B False w') = fst (get_basic_auth kr m B False w)"
    if "\<not> (truthy (environ w ''PI_USER'') \<and> truthy (environ w ''PI_PASS''))"
  proof -
    from that have e: "\<not> (truthy (environ w ENV_USER) \<and> truthy (environ w ENV_PASS))"
      by (simp add: ENV_USER_def ENV_PASS_def)
    with env have e': "\<not> (truthy (environ w' ENV_USER) \<and> truthy (environ w' ENV_PASS))"
      by simp
    show ?thesis
      by (simp add: get_basic_auth_contract [OF assms(1) e] get_basic_auth_contract [OF assms(1) e']
          u p)
  qed
  with u p show ?thesis by blast
qed

theorem other_account_untouched_witness:
  "delete_basic_auth dict_keyring (import_secrets Map.empty) ''prod''
     \<lparr>environ = Map.empty,
      keyring_state = [((''pi-weblogger'', ''prod:username''), ''alice''),
                       ((''pi-weblogger'', ''test:username''), ''tester''),
                       ((''pi-weblogger'', ''prod:password''), ''s3cr3t''),
                       ((''pi-weblogger'', ''test:password''), ''pw'')],
      tty_in = [], tty_out = []\<rparr>
   = (Inr (),
      \<lparr>environ = Map.empty,
       keyring_state = [((''pi-weblogger'', ''test:username''), ''tester''),
                        ((''pi-weblogger'', ''test:password''), ''pw'')],
       tty_in = [], tty_out = []\<rparr>)
   \<and> fst (get_basic_auth dict_keyring (import_secrets Map.empty) ''test'' False
      \<lparr>environ = Map.empty,
       keyring_state = [((''pi-weblogger'', ''test:username''), ''tester''),
                        ((''pi-weblogger'', ''test:password''), ''pw'')],
       tty_in = [], tty_out = []\<rparr>)
     = fst (get_basic_auth dict_keyring (import_secrets Map.empty) ''test'' False
      \<lparr>environ = Map.empty,
       keyring_state = [((''pi-weblogger'', ''prod:username''), ''alice''),
                       ((''pi-weblogger'', ''test:username''), ''tester''),
                       ((''pi-weblogger'', ''prod:password''), ''s3cr3t''),
                       ((''pi-weblogger'', ''test:password''), ''pw'')],
       tty_in = [], tty_out = []\<rparr>)"
proof -
  let ?m = "import_secrets Map.empty"
  let ?w = "\<lparr>environ = Map.empty,
      keyring_state = [((''pi-weblogger'', ''prod:username''), ''alice''),
                       ((''pi-weblogger'', ''test:username''), ''tester''),
                       ((''pi-weblogger'', ''prod:password''), ''s3cr3t''),
                       ((''pi-weblogger'', ''test:password''), ''pw'')],
      tty_in = [], tty_out = []\<rparr>"
  let ?w' = "\<lparr>environ = Map.empty,
       keyring_state = [((''pi-weblogger'', ''test:username''), ''tester''),
                        ((''pi-weblogger'', ''test:password''), ''pw'')],
       tty_in = [], tty_out = []\<rparr>"
  have ne: "''prod'' \<noteq> ''test''"
    by simp
  have env: "\<not> (truthy (environ ?w ''PI_USER'') \<and> truthy (environ ?w ''PI_PASS''))"
    by simp
  have run: "delete_basic_auth dict_keyring ?m ''prod'' ?w = (Inr (), ?w')"
    by (simp add: delete_basic_auth_def key_names_def py_bind_def except_PasswordDeleteError_def
        keyring_delete_password_def dict_keyring_def import_secrets_def getenv_default_def
        AList.delete_eq)
  then have "set_basic_auth dict_keyring ?m ''prod'' None None ?w = (Inr (), ?w')
      \<or> delete_basic_auth dict_keyring ?m ''prod'' ?w = (Inr (), ?w')"
    by (rule disjI2)
  from other_account_untouched [OF dict_keyring_honours_contract ne this] env
  have "fst (get_basic_auth dict_keyring ?m ''test'' False ?w')
      = fst (get_basic_auth dict_keyring ?m ''test'' False ?w)"
    by blast
  with run show ?thesis by blast
qed

subsection \<open>Bootstrap\<close>

lemma set_basic_auth_prompted:
  "tty_in w = l1 # l2 # rest \<Longrightarrow>
   set_basic_auth kr m a None None w =
     py_bind (keyring_set_password kr (SERVICE_NAME m) (fst (key_names a)) (strip l1))
       (\<lambda>_. keyring_set_password kr (SERVICE_NAME m) (snd (key_names a)) l2)
       (w\<lparr>tty_in := rest,
          tty_out := tty_out w @ [Visible ''PI Username: '', Masked ''PI Password: '']\<rparr>)"
  by (simp add: set_basic_auth_def key_names_def py_bind_def py_return_def input_def getpass_def)

lemma get_basic_auth_bootstrap:
  assumes "\<not> (truthy (environ w ENV_USER) \<and> truthy (environ w ENV_PASS))"
    and "get_password kr (SERVICE_NAME m) (fst (key_names a)) (keyring_state w) = (Inr x0, t1)"
    and "get_password kr (SERVICE_NAME m) (snd (key_names a)) t1 = (Inr y0, t2)"
    and "\<not> (truthy x0 \<and> truthy y0)"
    and "set_basic_auth kr m a None None (w\<lparr>keyring_state := t2\<rparr>) = (Inr (), w3)"
    and "get_password kr (SERVICE_NAME m) (fst (key_names a)) (keyring_state w3) = (Inr x, t3)"
    and "get_password kr (SERVICE_NAME m) (snd (key_names a)) t3 = (Inr y, t4)"
  shows "get_basic_auth kr m a True w =
     (if truthy x \<and> truthy y then Inr (the x, the y)
      else Inl (MissingSecretError (missing_message m a)), w3\<lparr>keyring_state := t4\<rparr>)"
  using assms(2-)
  by (auto simp add: get_basic_auth_def py_bind_def py_return_def py_raise_def key_names_def
      env_credentials_none [OF assms(1)] keyring_get_password_def)

lemma strip_alice: "strip ''alice'' = ''alice''"
  by (simp add: strip_def isspace_def)

lemma bootstrap_contract:
  assumes c: "honours_contract kr content"
    and env: "\<not> (truthy (environ w ENV_USER) \<and> truthy (environ w ENV_PASS))"
    and empty: "\<not> (truthy (content (keyring_state w) (SERVICE_NAME m, fst (key_names a)))
          \<and> truthy (content (keyring_state w) (SERVICE_NAME m, snd (key_names a))))"
    and tty: "tty_in w = l1 # l2 # rest"
    and typed: "strip l1 \<noteq> []" "l2 \<noteq> []"
    and s1: "set_password kr (SERVICE_NAME m) (fst (key_names a)) (strip l1) (keyring_state w)
          = (Inr (), s1)"
    and s2: "set_password kr (SERVICE_NAME m) (snd (key_names a)) l2 s1 = (Inr (), s2)"
    and w': "w' = w\<lparr>keyring_state := s2, tty_in := rest,
          tty_out := tty_out w @ [Visible ''PI Username: '', Masked ''PI Password: '']\<rparr>"
  shows "get_basic_auth kr m a True w = (Inr (strip l1, l2), w')"
    and "content s2 (SERVICE_NAME m, fst (key_names a)) = Some (strip l1)"
    and "content s2 (SERVICE_NAME m, snd (key_names a)) = Some l2"
    and "get_basic_auth kr m a False w' = (Inr (strip l1, l2), w')"
proof -
  let ?p = "w\<lparr>tty_in := rest,
          tty_out := tty_out w @ [Visible ''PI Username: '', Masked ''PI Password: '']\<rparr>"
  have s1': "set_password kr (SERVICE_NAME m) (fst (key_names a)) (strip l1) (keyring_state ?p)
          = (Inr (), s1)"
    using s1 by simp
  have store: "set_basic_auth kr m a None None (w\<lparr>keyring_state := keyring_state w\<rparr>) = (Inr (), w')"
    using set_basic_auth_prompted [OF tty, of kr m a] two_writes [OF s1' s2] w' by simp
  have u: "content s2 (SERVICE_NAME m, fst (key_names a)) = Some (strip l1)"
    using contract_set_value [OF c s1]
      contract_set_frame [OF c s2, of "(SERVICE_NAME m, fst (key_names a))"]
      key_names_user_not_pass [of a a] by simp
  have p: "content s2 (SERVICE_NAME m, snd (key_names a)) = Some l2"
    using contract_set_value [OF c s2] .
  have ks: "keyring_state w' = s2"
    using w' by simp
  have g1: "get_password kr (SERVICE_NAME m) (fst (key_names a)) (keyring_state w')
      = (Inr (Some (strip l1)), s2)"
    using contract_get [OF c, of "SERVICE_NAME m" "fst (key_names a)" s2] u ks by simp
  have g2: "get_password kr (SERVICE_NAME m) (snd (key_names a)) s2 = (Inr (Some l2), s2)"
    using contract_get [OF c, of "SERVICE_NAME m" "snd (key_names a)" s2] p by simp
  have same: "w'\<lparr>keyring_state := s2\<rparr> = w'"
    using w' by simp
  show "get_basic_auth kr m a True w = (Inr (strip l1, l2), w')"
    using get_basic_auth_bootstrap [OF env contract_get [OF c] contract_get [OF c] empty store g1 g2]
      typed same by simp
  show "content s2 (SERVICE_NAME m, fst (key_names a)) = Some (strip l1)"
    by (rule u)
  show "content s2 (SERVICE_NAME m, snd (key_names a)) = Some l2"
    by (rule p)
  have env': "\<not> (truthy (environ w' ENV_USER) \<and> truthy (environ w' ENV_PASS))"
    using env w' by simp
  show "get_basic_auth kr m a False w' = (Inr (strip l1, l2), w')"
    using get_basic_auth_contract [OF c env', of m a] u p ks typed by simp
qed

text \<open>
  C7. First part: on a backend that honours the contract, with no environment override,
  no complete pair stored for the account, bootstrap on, the operator typing
  \<open>alice\<close> and \<open>s3cr3t\<close>, and both writes succeeding, \<open>get_basic_auth\<close> returns
  (\<open>alice\<close>, \<open>s3cr3t\<close>), the keyring holds both values afterwards, and a second call
  without bootstrap returns the same pair without touching the terminal.
  Second part, for any backend at all: after the prompt-and-store step the function
  reads both keys again, and what it returns is what these two reads gave (or
  \<open>MissingSecretError\<close> if they do not give two non-empty values), not what was typed.
\<close>

theorem bootstrap_persists:
  "(honours_contract kr content \<longrightarrow>
    \<not> (truthy (environ w ''PI_USER'') \<and> truthy (environ w ''PI_PASS'')) \<longrightarrow>
    \<not> (truthy (content (keyring_state w) (SERVICE_NAME m, fst (key_names account)))
        \<and> truthy (content (keyring_state w) (SERVICE_NAME m, snd (key_names account)))) \<longrightarrow>
    tty_in w = ''alice'' # ''s3cr3t'' # rest \<longrightarrow>
    set_password kr (SERVICE_NAME m) (fst (key_names account)) ''alice'' (keyring_state w)
      = (Inr (), s1) \<longrightarrow>
    set_password kr (SERVICE_NAME m) (snd (key_names account)) ''s3cr3t'' s1 = (Inr (), s2) \<longrightarrow>
    w' = w\<lparr>keyring_state := s2, tty_in := rest,
            tty_out := tty_out w @ [Visible ''PI Username: '', Masked ''PI Password: '']\<rparr> \<longrightarrow>
      get_basic_auth kr m account True w = (Inr (''alice'', ''s3cr3t''), w')
      \<and> content s2 (SERVICE_NAME m, fst (key_names account)) = Some ''alice''
      \<and> content s2 (SERVICE_NAME m, snd (key_names account)) = Some ''s3cr3t''
      \<and> get_basic_auth kr m account False w' = (Inr (''alice'', ''s3cr3t''), w'))
   \<and> (\<not> (truthy (environ v ''PI_USER'') \<and> truthy (environ v ''PI_PASS'')) \<longrightarrow>
      get_password kr (SERVICE_NAME m) (fst (key_names account)) (keyring_state v) = (Inr x0, t1) \<longrightarrow>
      get_password kr (SERVICE_NAME m) (snd (key_names account)) t1 = (Inr y0, t2) \<longrightarrow>
      \<not> (truthy x0 \<and> truthy y0) \<longrightarrow>
      set_basic_auth kr m account None None (v\<lparr>keyring_state := t2\<rparr>) = (Inr (), v3) \<longrightarrow>
      get_password kr (SERVICE_NAME m) (fst (key_names account)) (keyring_state v3) = (Inr x, t3) \<longrightarrow>
      get_password kr (SERVICE_NAME m) (snd (key_names account)) t3 = (Inr y, t4) \<longrightarrow>
      get_basic_auth kr m account True v =
        (if truthy x \<and> truthy y then Inr (the x, the y)
         else Inl (MissingSecretError (missing_message m account)), v3\<lparr>keyring_state := t4\<rparr>))"
proof (intro conjI impI)
  assume c: "honours_contract kr content"
    and env: "\<not> (truthy (environ w ''PI_USER'') \<and> truthy (environ w ''PI_PASS''))"
    and empty: "\<not> (truthy (content (keyring_state w) (SERVICE_NAME m, fst (key_names account)))
        \<and> truthy (content (keyring_state w) (SERVICE_NAME m, snd (key_names account))))"
    and tty: "tty_in w = ''alice'' # ''s3cr3t'' # rest"
    and s1: "set_password kr (SERVICE_NAME m) (fst (key_names account)) ''alice'' (keyring_state w)
      = (Inr (), s1)"
    and s2: "set_password kr (SERVICE_NAME m) (snd (key_names account)) ''s3cr3t'' s1 = (Inr (), s2)"
    and w': "w' = w\<lparr>keyring_state := s2, tty_in := rest,
            tty_out := tty_out w @ [Visible ''PI Username: '', Masked ''PI Password: '']\<rparr>"
  from env have env': "\<not> (truthy (environ w ENV_USER) \<and> truthy (environ w ENV_PASS))"
    by (simp add: ENV_USER_def ENV_PASS_def)
  from s1 have s1': "set_password kr (SERVICE_NAME m) (fst (key_names account)) (strip ''alice'')
      (keyring_state w) = (Inr (), s1)"
    by (simp add: strip_alice)
  have typed: "strip ''alice'' \<noteq> []" "''s3cr3t'' \<noteq> []"
    by (simp_all add: strip_alice)
  note b = bootstrap_contract [OF c env' empty tty typed s1' s2 w', unfolded strip_alice]
  show "get_basic_auth kr m account True w = (Inr (''alice'', ''s3cr3t''), w')"
    by (rule b(1))
  show "content s2 (SERVICE_NAME m, fst (key_names account)) = Some ''alice''"
    by (rule b(2))
  show "content s2 (SERVICE_NAME m, snd (key_names account)) = Some ''s3cr3t''"
    by (rule b(3))
  show "get_basic_auth kr m account False w' = (Inr (''alice'', ''s3cr3t''), w')"
    by (rule b(4))
next
  assume env: "\<not> (truthy (environ v ''PI_USER'') \<and> truthy (environ v ''PI_PASS''))"
    and g: "get_password kr (SERVICE_NAME m) (fst (key_names account)) (keyring_state v) = (Inr x0, t1)"
      "get_password kr (SERVICE_NAME m) (snd (key_names account)) t1 = (Inr y0, t2)"
      "\<not> (truthy x0 \<and> truthy y0)"
      "set_basic_auth kr m account None None (v\<lparr>keyring_state := t2\<rparr>) = (Inr (), v3)"
      "get_password kr (SERVICE_NAME m) (fst (key_names account)) (keyring_state v3) = (Inr x, t3)"
      "get_password kr (SERVICE_NAME m) (snd (key_names account)) t3 = (Inr y, t4)"
  from env have env': "\<not> (truthy (environ v ENV_USER) \<and> truthy (environ v ENV_PASS))"
    by (simp add: ENV_USER_def ENV_PASS_def)
  show "get_basic_auth kr m account True v =
        (if truthy x \<and> truthy y then Inr (the x, the y)
         else Inl (MissingSecretError (missing_message m account)), v3\<lparr>keyring_state := t4\<rparr>)"
    by (rule get_basic_auth_bootstrap [OF env' g])
qed

theorem bootstrap_persists_witness:
  "get_basic_auth dict_keyring (import_secrets Map.empty) ''prod'' True
     \<lparr>environ = Map.empty, keyring_state = [], tty_in = [''alice'', ''s3cr3t''], tty_out = []\<rparr>
   = (Inr (''alice'', ''s3cr3t''),
      \<lparr>environ = Map.empty,
       keyring_state = [((''pi-weblogger'', ''prod:username''), ''alice''),
                        ((''pi-weblogger'', ''prod:password''), ''s3cr3t'')],
       tty_in = [], tty_out = [Visible ''PI Username: '', Masked ''PI Password: '']\<rparr>)
   \<and> get_basic_auth dict_keyring (import_secrets Map.empty) ''prod'' False
      \<lparr>environ = Map.empty,
       keyring_state = [((''pi-weblogger'', ''prod:username''), ''alice''),
                        ((''pi-weblogger'', ''prod:password''), ''s3cr3t'')],
       tty_in = [], tty_out = [Visible ''PI Username: '', Masked ''PI Password: '']\<rparr>
   = (Inr (''alice'', ''s3cr3t''),
      \<lparr>environ = Map.empty,
       keyring_state = [((''pi-weblogger'', ''prod:username''), ''alice''),
                        ((''pi-weblogger'', ''prod:password''), ''s3cr3t'')],
       tty_in = [], tty_out = [Visible ''PI Username: '', Masked ''PI Password: '']\<rparr>)
   \<and> get_basic_auth forgetful_keyring (import_secrets Map.empty) ''prod'' True
      \<lparr>environ = Map.empty, keyring_state = (), tty_in = [''alice'', ''s3cr3t''], tty_out = []\<rparr>
   = (Inl (MissingSecretError (missing_message (import_secrets Map.empty) ''prod'')),
      \<lparr>environ = Map.empty, keyring_state = (), tty_in = [],
       tty_out = [Visible ''PI Username: '', Masked ''PI Password: '']\<rparr>)"
proof -
  let ?m = "import_secrets Map.empty"
  let ?w = "\<lparr>environ = Map.empty, keyring_state = ([] :: ((string \<times> string) \<times> string) list),
    tty_in = [''alice'', ''s3cr3t''], tty_out = []\<rparr>"
  let ?s1 = "[((''pi-weblogger'', ''prod:username''), ''alice'')]"
  let ?s2 = "[((''pi-weblogger'', ''prod:username''), ''alice''),
              ((''pi-weblogger'', ''prod:password''), ''s3cr3t'')]"
  let ?w' = "\<lparr>environ = Map.empty, keyring_state = ?s2,
       tty_in = [], tty_out = [Visible ''PI Username: '', Masked ''PI Password: '']\<rparr>"
  have h1: "\<not> (truthy (environ ?w ''PI_USER'') \<and> truthy (environ ?w ''PI_PASS''))"
    by simp
  have h2: "\<not> (truthy (map_of (keyring_state ?w) (SERVICE_NAME ?m, fst (key_names ''prod'')))
        \<and> truthy (map_of (keyring_state ?w) (SERVICE_NAME ?m, snd (key_names ''prod''))))"
    by simp
  have h3: "tty_in ?w = ''alice'' # ''s3cr3t'' # []"
    by simp
  have h4: "set_password dict_keyring (SERVICE_NAME ?m) (fst (key_names ''prod'')) ''alice''
      (keyring_state ?w) = (Inr (), ?s1)"
    by (simp add: dict_keyring_def import_secrets_def getenv_default_def key_names_def)
  have h5: "set_password dict_keyring (SERVICE_NAME ?m) (snd (key_names ''prod'')) ''s3cr3t'' ?s1
      = (Inr (), ?s2)"
    by (simp add: dict_keyring_def import_secrets_def getenv_default_def key_names_def)
  have h6: "?w' = ?w\<lparr>keyring_state := ?s2, tty_in := [],
            tty_out := tty_out ?w @ [Visible ''PI Username: '', Masked ''PI Password: '']\<rparr>"
    by simp
  have first: "get_basic_auth dict_keyring ?m ''prod'' True ?w = (Inr (''alice'', ''s3cr3t''), ?w')
      \<and> get_basic_auth dict_keyring ?m ''prod'' False ?w' = (Inr (''alice'', ''s3cr3t''), ?w')"
    using bootstrap_persists [where kr = dict_keyring and content = map_of and w = ?w and m = ?m
        and account = "''prod''" and rest = "[]" and ?s1.0 = ?s1 and ?s2.0 = ?s2 and w' = ?w']
      dict_keyring_honours_contract h1 h2 h3 h4 h5 h6
    by blast
  let ?v = "\<lparr>environ = Map.empty, keyring_state = (),
    tty_in = [''alice'', ''s3cr3t''], tty_out = []\<rparr>"
  let ?v3 = "\<lparr>environ = Map.empty, keyring_state = (), tty_in = [],
       tty_out = [Visible ''PI Username: '', Masked ''PI Password: '']\<rparr>"
  have k1: "\<not> (truthy (environ ?v ''PI_USER'') \<and> truthy (environ ?v ''PI_PASS''))"
    by simp
  have k2: "get_password forgetful_keyring (SERVICE_NAME ?m) k () = (Inr None, ())" for k
    by (simp add: forgetful_keyring_def)
  have k3: "\<not> (truthy None \<and> truthy None)"
    by simp
  have k4: "set_basic_auth forgetful_keyring ?m ''prod'' None None (?v\<lparr>keyring_state := ()\<rparr>)
      = (Inr (), ?v3)"
    by (simp add: set_basic_auth_def key_names_def py_bind_def py_return_def input_def getpass_def
        keyring_set_password_def forgetful_keyring_def)
  have "get_basic_auth forgetful_keyring ?m ''prod'' True ?v =
        (if truthy None \<and> truthy None then Inr (the None, the None)
         else Inl (MissingSecretError (missing_message ?m ''prod'')), ?v3\<lparr>keyring_state := ()\<rparr>)"
    using bootstrap_persists [where kr = forgetful_keyring and m = ?m and account = "''prod''"
        and v = ?v and ?x0.0 = None and ?t1.0 = "()" and ?y0.0 = None and ?t2.0 = "()"
        and ?v3.0 = ?v3 and x = None and ?t3.0 = "()" and y = None and ?t4.0 = "()"]
      k1 k2 k3 k4
    by simp
  then have second: "get_basic_auth forgetful_keyring ?m ''prod'' True ?v =
      (Inl (MissingSecretError (missing_message ?m ''prod'')), ?v3)"
    by simp
  from first second show ?thesis by blast
qed

end
